theory Spec2Isabelle
  imports Complex_Main
begin

section \<open>The translation routes of MARGSATHI (backend/routes/translation.py)\<close>

text \<open>
  The module wraps three translation providers and an OCR engine behind FastAPI handlers.
  The handlers are embedded as HOL functions of the module's collaborators:
  \<^item> the third-party engines (deep-translator, googletrans, EasyOCR) are fields of a record
    \<open>world\<close>; a call that raises returns \<open>Inl\<close> of the exception's text;
  \<^item> a handler returns its outcome (\<open>Inl\<close> the exception that leaves it, \<open>Inr\<close> the
    response model) together with the list of engine and file calls it made, in order;
  \<^item> Python \<open>str\<close> is \<open>string\<close>, a \<open>char\<close> standing for a code point below 256;
  \<^item> a Python \<open>float\<close> is the real number the double denotes, and float arithmetic
    rounds to the nearest double;
  \<^item> the logger calls are left out.
  The handlers take the validated arguments. For \<open>/translate\<close> the validation of the
  request body against \<open>TranslationRequest\<close> is modelled as well.
\<close>

subsection \<open>Python built-ins used by the module\<close>

text \<open>\<open>x or d\<close> on an optional string: \<open>None\<close> and the empty string are falsy.\<close>

fun py_or :: "string option \<Rightarrow> string \<Rightarrow> string" where
  "py_or None d = d"
| "py_or (Some s) d = (if s = [] then d else s)"

definition ascii_lowercase :: string where
  "ascii_lowercase = ''abcdefghijklmnopqrstuvwxyz''"

definition ascii_uppercase :: string where
  "ascii_uppercase = ''ABCDEFGHIJKLMNOPQRSTUVWXYZ''"

text \<open>
  \<open>str.upper\<close> on ASCII text, which every language code of the module is; a character
  outside \<open>a..z\<close> is kept.
\<close>

definition upper_char :: "char \<Rightarrow> char" where
  "upper_char c =
     (case map_of (zip ascii_lowercase ascii_uppercase) c of None \<Rightarrow> c | Some u \<Rightarrow> u)"

definition upper :: "string \<Rightarrow> string" where
  "upper s = map upper_char s"

text \<open>The code points below 256 for which \<open>str.isspace\<close> holds.\<close>

definition whitespace :: "char list" where
  "whitespace =
     [CHR 0x09, CHR 0x0A, CHR 0x0B, CHR 0x0C, CHR 0x0D, CHR 0x1C, CHR 0x1D, CHR 0x1E,
      CHR 0x1F, CHR 0x20, CHR 0x85, CHR 0xA0]"

definition isspace :: "char \<Rightarrow> bool" where
  "isspace c = (c \<in> set whitespace)"

definition strip :: "string \<Rightarrow> string" where
  "strip s = rev (dropWhile isspace (rev (dropWhile isspace s)))"

definition startswith :: "string \<Rightarrow> string \<Rightarrow> bool" where
  "startswith s p = (take (length p) s = p)"

fun join :: "string \<Rightarrow> string list \<Rightarrow> string" where
  "join sep [] = []"
| "join sep [x] = x"
| "join sep (x # y # ys) = x @ sep @ join sep (y # ys)"

text \<open>
  Python \<open>float\<close> is an IEEE 754 double. A finite double is the real number it denotes,
  and \<open>round_double\<close> gives the double nearest to a real, ties going to the even
  significand: 53 significant bits, the exponent of the leading bit not below \<open>-1022\<close>
  (below that the doubles are the multiples of \<open>2 powi -1074\<close>). Infinities, NaN and
  results from \<open>2 ^ 1024\<close> on, where Python gives \<open>inf\<close> or raises, are not
  represented. A float literal denotes the double nearest to it; \<open>1.0\<close> and \<open>0.5\<close>
  are doubles themselves.
\<close>

fun bit_length :: "nat \<Rightarrow> nat" where
  "bit_length n = (if n = 0 then 0 else Suc (bit_length (n div 2)))"

declare bit_length.simps [simp del]

text \<open>The exponent of the leading bit of \<open>a > 0\<close>: \<open>2 powi e \<le> a < 2 powi (e + 1)\<close>.\<close>

definition float_exponent :: "real \<Rightarrow> int" where
  "float_exponent a =
     (if 1 \<le> a then int (bit_length (nat \<lfloor>a\<rfloor>)) - 1
      else - int (bit_length (nat (\<lceil>1 / a\<rceil> - 1))))"

definition round_half_even :: "real \<Rightarrow> int" where
  "round_half_even q =
     (let f = \<lfloor>q\<rfloor>
      in if q - of_int f < 1 / 2 then f
         else if 1 / 2 < q - of_int f then f + 1
         else if even f then f else f + 1)"

definition round_double :: "real \<Rightarrow> real" where
  "round_double x =
     (if x = 0 then 0
      else
        (let e = max (float_exponent \<bar>x\<bar>) (- 1022);
             ulp = 2 powi (e - 52)
         in sgn x * of_int (round_half_even (\<bar>x\<bar> / ulp)) * ulp))"

text \<open>\<open>x + y\<close> and \<open>x / y\<close> on floats, and the conversion of an \<open>int\<close> operand.\<close>

definition float_add :: "real \<Rightarrow> real \<Rightarrow> real" where
  "float_add x y = round_double (x + y)"

definition float_div :: "real \<Rightarrow> real \<Rightarrow> real" where
  "float_div x y = round_double (x / y)"

definition float_of_nat :: "nat \<Rightarrow> real" where
  "float_of_nat n = round_double (real n)"

text \<open>
  \<open>sum\<close> on a list of floats: the items are added from the left, starting at 0, each
  addition rounded. This is the summation of CPython up to 3.11, and of any CPython on
  items that are not exactly of type \<open>float\<close>, such as numpy scalars; from 3.12 on, a
  list of plain floats is summed with a compensation term.
\<close>

definition py_sum :: "real list \<Rightarrow> real" where
  "py_sum xs = foldl float_add (float_of_nat 0) xs"

text \<open>\<open>d.get(k, dflt)\<close> on a dict literal, kept as the list of its items.\<close>

definition dict_get :: "(string \<times> string) list \<Rightarrow> string \<Rightarrow> string \<Rightarrow> string" where
  "dict_get d k dflt = (case map_of d k of None \<Rightarrow> dflt | Some v \<Rightarrow> v)"

subsection \<open>Collaborators, errors and effects\<close>

type_synonym bytes = string

text \<open>One EasyOCR detection with \<open>detail=1\<close>: bounding box, text, confidence.\<close>

type_synonym box = "(int \<times> int) list"
type_synonym detection = "box \<times> string \<times> real"

text \<open>\<open>Reader.readtext\<close>: the detections, or the text of the exception raised.\<close>

type_synonym Reader = "bytes \<Rightarrow> string + detection list"

text \<open>
  The googletrans \<open>Translator\<close>. \<open>translate text src dest\<close> gives the result's
  \<open>text\<close> and its \<open>confidence\<close> attribute when it has one; \<open>detect text\<close> gives
  \<open>lang\<close> and \<open>confidence\<close>.
\<close>

record GoogleTransAPI =
  translate :: "string \<Rightarrow> string option \<Rightarrow> string \<Rightarrow> string + (string \<times> real option)"
  detect :: "string \<Rightarrow> string + (string \<times> real)"

text \<open>
  What the process finds when the module is loaded:
  \<^item> \<open>GoogleTranslator source target text\<close> is deep-translator's
    \<open>GoogleTranslator(source, target).translate(text)\<close>;
  \<^item> \<open>googletrans_import\<close> is \<open>None\<close> when \<open>from googletrans import Translator\<close>
    raises \<open>ImportError\<close>;
  \<^item> \<open>easyocr_Reader\<close> is the outcome of \<open>import easyocr\<close> followed by
    \<open>easyocr.Reader(['en', 'hi'], gpu=False)\<close>.
\<close>

record world =
  GoogleTranslator :: "string \<Rightarrow> string \<Rightarrow> string \<Rightarrow> string + string"
  googletrans_import :: "GoogleTransAPI option"
  easyocr_Reader :: "string + Reader"

text \<open>
  The upload as the handler uses it: \<open>content_type\<close> (Starlette gives \<open>None\<close> when
  the part has no such header) and the outcome of \<open>await file.read()\<close>.
\<close>

record UploadFile =
  content_type :: "string option"
  read :: "string + bytes"

text \<open>
  What ends a request without a response model: an \<open>HTTPException\<close> with status and
  detail, the refusal of a request body that does not validate (with the names of the
  fields refused), or another exception, which no handler of the module catches.
\<close>

datatype error =
    HTTPException nat string
  | RequestValidationError "string list"
  | Uncaught string

datatype event =
    FileRead
  | Readtext bytes
  | DeepTranslate string string string
  | GoogletransTranslate string "string option" string
  | GoogletransDetect string

type_synonym 'a outcome = "(error + 'a) \<times> event list"

subsection \<open>Module state set at import time\<close>

definition GOOGLETRANS_AVAILABLE :: "world \<Rightarrow> bool" where
  "GOOGLETRANS_AVAILABLE w = (case googletrans_import w of None \<Rightarrow> False | Some _ \<Rightarrow> True)"

text \<open>\<open>setup_ocr\<close> returns the flag and leaves the reader in \<open>EASYOCR_READER\<close>.\<close>

definition setup_ocr :: "world \<Rightarrow> bool \<times> Reader option" where
  "setup_ocr w = (case easyocr_Reader w of Inl e \<Rightarrow> (False, None) | Inr r \<Rightarrow> (True, Some r))"

definition OCR_AVAILABLE :: "world \<Rightarrow> bool" where
  "OCR_AVAILABLE w = fst (setup_ocr w)"

definition EASYOCR_READER :: "world \<Rightarrow> Reader option" where
  "EASYOCR_READER w = snd (setup_ocr w)"

definition LanguageCode :: "string list" where
  "LanguageCode = [''en'', ''hi'', ''bn'', ''ta'', ''te'', ''mr'', ''kn'', ''ml'', ''gu'']"

definition LANGUAGE_NAMES :: "(string \<times> string) list" where
  "LANGUAGE_NAMES =
     [(''en'', ''English''), (''hi'', ''Hindi''), (''bn'', ''Bengali''), (''ta'', ''Tamil''),
      (''te'', ''Telugu''), (''mr'', ''Marathi''), (''kn'', ''Kannada''),
      (''ml'', ''Malayalam''), (''gu'', ''Gujarati'')]"

definition DEEP_TRANSLATOR_CODES :: "(string \<times> string) list" where
  "DEEP_TRANSLATOR_CODES =
     [(''en'', ''en''), (''hi'', ''hi''), (''bn'', ''bn''), (''ta'', ''ta''), (''te'', ''te''),
      (''mr'', ''mr''), (''kn'', ''kn''), (''ml'', ''ml''), (''gu'', ''gu'')]"

subsection \<open>Request and response models\<close>

text \<open>
  The fields of the models as Python holds them at run time, strings and \<open>None\<close>. The
  constraints that the class \<open>TranslationRequest\<close> puts on a request (the length of
  \<open>text\<close>, the \<open>Literal\<close> types of the language codes and of \<open>provider\<close>) are
  those of \<open>validate_TranslationRequest\<close> below: a payload reaches \<open>translate_text\<close>
  over HTTP only through it.
\<close>

record TranslationRequest =
  "text" :: string
  target_lang :: string
  source_lang :: "string option"
  provider :: "string option"

record TranslationResponse =
  original_text :: string
  translated_text :: string
  source_lang :: string
  target_lang :: string
  provider :: string
  confidence :: "real option"
  is_mock :: bool

record ImageTranslationResponse =
  extracted_text :: string
  translated_text :: string
  source_lang :: string
  target_lang :: string
  provider :: string
  ocr_confidence :: "real option"
  is_mock :: bool

record LanguageDetectionResponse =
  detected_lang :: string
  language_name :: string
  confidence :: real

subsection \<open>Providers\<close>

definition translate_with_deep_translator ::
  "world \<Rightarrow> string \<Rightarrow> string \<Rightarrow> string \<Rightarrow> (string \<times> real) outcome" where
  "translate_with_deep_translator w txt src_lang tgt_lang =
     (let source_code = dict_get DEEP_TRANSLATOR_CODES src_lang ''auto'';
          target_code = dict_get DEEP_TRANSLATOR_CODES tgt_lang ''en''
      in (case GoogleTranslator w source_code target_code txt of
            Inl e \<Rightarrow> Inl (HTTPException 500 (''Translation failed: '' @ e))
          | Inr translated \<Rightarrow> Inr (translated, round_double 0.95),
          [DeepTranslate source_code target_code txt]))"

definition translate_with_googletrans ::
  "world \<Rightarrow> string \<Rightarrow> string \<Rightarrow> string \<Rightarrow> (string \<times> real) outcome" where
  "translate_with_googletrans w txt src_lang tgt_lang =
     (case googletrans_import w of
        None \<Rightarrow>
          (Inl (HTTPException 503 ''Google Translate API not available. Install googletrans.''),
           [])
      | Some translator \<Rightarrow>
          (let src = (if src_lang \<noteq> ''auto'' then Some src_lang else None)
           in (case translate translator txt src tgt_lang of
                 Inl e \<Rightarrow> Inl (HTTPException 500 (''Google Translate failed: '' @ e))
               | Inr (result_text, result_confidence) \<Rightarrow>
                   Inr (result_text,
                        (case result_confidence of None \<Rightarrow> round_double 0.9 | Some c \<Rightarrow> c)),
               [GoogletransTranslate txt src tgt_lang])))"

definition mock_translate :: "string \<Rightarrow> string \<Rightarrow> string \<times> real" where
  "mock_translate txt tgt_lang =
     (let marker = ''['' @ upper tgt_lang @ '']''
      in (marker @ '' '' @ txt, 1.0))"

subsection \<open>POST /translate\<close>

definition translate_text :: "world \<Rightarrow> TranslationRequest \<Rightarrow> TranslationResponse outcome" where
  "translate_text w payload =
     (let src_lang = py_or (TranslationRequest.source_lang payload) ''auto'';
          tgt_lang = TranslationRequest.target_lang payload;
          (dispatched, trace) =
            (if TranslationRequest.provider payload = Some ''mock'' then
               (Inr (mock_translate (text payload) tgt_lang, True, ''mock''), [])
             else if TranslationRequest.provider payload = Some ''google'' then
               (case translate_with_googletrans w (text payload) src_lang tgt_lang of
                  (Inl e, tr) \<Rightarrow> (Inl e, tr)
                | (Inr res, tr) \<Rightarrow> (Inr (res, False, ''google-translate''), tr))
             else
               (case translate_with_deep_translator w (text payload) src_lang tgt_lang of
                  (Inl e, tr) \<Rightarrow> (Inl e, tr)
                | (Inr res, tr) \<Rightarrow> (Inr (res, False, ''deep-translator''), tr)))
      in (case dispatched of
            Inl e \<Rightarrow> Inl e
          | Inr ((translated, conf), mock_flag, provider_name) \<Rightarrow>
              Inr \<lparr> original_text = text payload,
                    translated_text = translated,
                    TranslationResponse.source_lang =
                      (if src_lang = ''auto'' then ''en'' else src_lang),
                    TranslationResponse.target_lang = tgt_lang,
                    TranslationResponse.provider = provider_name,
                    TranslationResponse.confidence = Some conf,
                    TranslationResponse.is_mock = mock_flag \<rparr>,
          trace))"

text \<open>
  The body of a \<open>POST /translate\<close> request, before validation: each member of the JSON
  object is absent, \<open>null\<close> or a string. FastAPI builds the \<open>TranslationRequest\<close>
  from it and calls the handler only when every field validates:
  \<^item> \<open>text\<close> is required, of length 1 to 5000;
  \<^item> \<open>target_lang\<close> is required, one of the \<open>LanguageCode\<close> literals;
  \<^item> \<open>source_lang\<close> is \<open>None\<close> when absent or \<open>null\<close>, else one of the
    \<open>LanguageCode\<close> literals;
  \<^item> \<open>provider\<close> is \<open>"deep"\<close> when absent, \<open>None\<close> when \<open>null\<close>, else one of
    \<open>"deep"\<close>, \<open>"google"\<close>, \<open>"mock"\<close>.
  A body that does not validate is refused with the fields at fault, in the order of the
  class.
\<close>

datatype 'a member = Absent | Null | Value 'a

record request_body =
  body_text :: "string member"
  body_target_lang :: "string member"
  body_source_lang :: "string member"
  body_provider :: "string member"

definition provider_literals :: "string list" where
  "provider_literals = [''deep'', ''google'', ''mock'']"

definition valid_text :: "string member \<Rightarrow> bool" where
  "valid_text m = (case m of Value s \<Rightarrow> 1 \<le> length s \<and> length s \<le> 5000 | _ \<Rightarrow> False)"

definition valid_required_literal :: "string list \<Rightarrow> string member \<Rightarrow> bool" where
  "valid_required_literal literals m = (case m of Value s \<Rightarrow> s \<in> set literals | _ \<Rightarrow> False)"

definition valid_optional_literal :: "string list \<Rightarrow> string member \<Rightarrow> bool" where
  "valid_optional_literal literals m = (case m of Value s \<Rightarrow> s \<in> set literals | _ \<Rightarrow> True)"

fun member_value :: "string member \<Rightarrow> string" where
  "member_value (Value s) = s"
| "member_value _ = []"

fun member_option :: "string member \<Rightarrow> string option" where
  "member_option (Value s) = Some s"
| "member_option _ = None"

fun provider_field :: "string member \<Rightarrow> string option" where
  "provider_field Absent = Some ''deep''"
| "provider_field Null = None"
| "provider_field (Value s) = Some s"

definition validation_errors :: "request_body \<Rightarrow> string list" where
  "validation_errors body =
     (if valid_text (body_text body) then [] else [''text'']) @
     (if valid_required_literal LanguageCode (body_target_lang body) then []
      else [''target_lang'']) @
     (if valid_optional_literal LanguageCode (body_source_lang body) then []
      else [''source_lang'']) @
     (if valid_optional_literal provider_literals (body_provider body) then []
      else [''provider''])"

definition validate_TranslationRequest :: "request_body \<Rightarrow> string list + TranslationRequest"
  where
  "validate_TranslationRequest body =
     (if validation_errors body \<noteq> [] then Inl (validation_errors body)
      else Inr \<lparr> text = member_value (body_text body),
                 TranslationRequest.target_lang = member_value (body_target_lang body),
                 TranslationRequest.source_lang = member_option (body_source_lang body),
                 TranslationRequest.provider = provider_field (body_provider body) \<rparr>)"

text \<open>The route: validation, then the handler.\<close>

definition post_translate :: "world \<Rightarrow> request_body \<Rightarrow> TranslationResponse outcome" where
  "post_translate w body =
     (case validate_TranslationRequest body of
        Inl refused \<Rightarrow> (Inl (RequestValidationError refused), [])
      | Inr payload \<Rightarrow> translate_text w payload)"

subsection \<open>POST /translate-image\<close>

text \<open>
  The two checks before the \<open>try\<close> raise directly; \<open>content_type.startswith\<close> on
  \<open>None\<close> is an \<open>AttributeError\<close> there. Inside the \<open>try\<close>, an \<open>HTTPException\<close>
  is raised again as it is and any other exception becomes the 500 of the last handler.
  \<open>EASYOCR_READER\<close> is \<open>None\<close> only when \<open>OCR_AVAILABLE\<close> is false, so the branch
  for a missing reader is never taken; its detail text is abridged.
\<close>

definition translate_image ::
  "world \<Rightarrow> UploadFile \<Rightarrow> string \<Rightarrow> string option \<Rightarrow> string \<Rightarrow> ImageTranslationResponse outcome"
  where
  "translate_image w file tgt_lang src_lang prov =
     (if \<not> OCR_AVAILABLE w then
        (Inl (HTTPException 503
           ''OCR engine (EasyOCR) is not initialized. Please check server logs.''), [])
      else
        (case content_type file of
           None \<Rightarrow> (Inl (Uncaught ''AttributeError''), [])
         | Some ct \<Rightarrow>
           (if \<not> startswith ct ''image/'' then
              (Inl (HTTPException 400 ''File must be an image''), [])
            else
              (case read file of
                 Inl e \<Rightarrow>
                   (Inl (HTTPException 500 (''Failed to process image: '' @ e)), [FileRead])
               | Inr image_data \<Rightarrow>
                 (case EASYOCR_READER w of
                    None \<Rightarrow>
                      (Inl (HTTPException 500
                         (''Failed to process image: ''
                          @ ''NoneType object has no attribute readtext'')),
                       [FileRead])
                  | Some reader \<Rightarrow>
                    (case reader image_data of
                       Inl e \<Rightarrow>
                         (Inl (HTTPException 500 (''Failed to process image: '' @ e)),
                          [FileRead, Readtext image_data])
                     | Inr results \<Rightarrow>
                       (let extracted_parts = map (\<lambda>(_, t, conf). t) results;
                            confidences = map (\<lambda>(_, t, conf). conf) results;
                            extracted = join '' '' extracted_parts
                        in (if strip extracted = [] then
                              (Inl (HTTPException 400
                                 ''No text found in image. Please upload an image with clear text.''),
                               [FileRead, Readtext image_data])
                            else
                              (let ocr_conf =
                                     (if confidences \<noteq> []
                                      then Some (float_div (py_sum confidences)
                                                  (float_of_nat (length confidences)))
                                      else None);
                                   source = py_or src_lang ''auto'';
                                   (dispatched, trace) =
                                     (if prov = ''mock'' then
                                        (Inr (mock_translate extracted tgt_lang, True, ''mock''),
                                         [])
                                      else if prov = ''google'' then
                                        (case translate_with_googletrans w extracted source
                                                tgt_lang of
                                           (Inl e, tr) \<Rightarrow> (Inl e, tr)
                                         | (Inr res, tr) \<Rightarrow>
                                             (Inr (res, False, ''google-translate''), tr))
                                      else
                                        (case translate_with_deep_translator w extracted source
                                                tgt_lang of
                                           (Inl e, tr) \<Rightarrow> (Inl e, tr)
                                         | (Inr res, tr) \<Rightarrow>
                                             (Inr (res, False, ''deep-translator''), tr)))
                               in ((case dispatched of
                                      Inl e \<Rightarrow> Inl e
                                    | Inr ((translated, _), mock_flag, provider_name) \<Rightarrow>
                                        Inr \<lparr> extracted_text = strip extracted,
                                              ImageTranslationResponse.translated_text =
                                                translated,
                                              ImageTranslationResponse.source_lang =
                                                (if source \<noteq> ''auto'' then source else ''en''),
                                              ImageTranslationResponse.target_lang = tgt_lang,
                                              ImageTranslationResponse.provider = provider_name,
                                              ocr_confidence = ocr_conf,
                                              ImageTranslationResponse.is_mock = mock_flag \<rparr>),
                                   [FileRead, Readtext image_data] @ trace))))))))))"

subsection \<open>POST /detect-language\<close>

definition detect_language :: "world \<Rightarrow> string \<Rightarrow> LanguageDetectionResponse outcome" where
  "detect_language w txt =
     (let (detection, trace) =
            (case googletrans_import w of
               Some translator \<Rightarrow> (detect translator txt, [GoogletransDetect txt])
             | None \<Rightarrow> (Inr (''en'', 0.5), []))
      in (case detection of
            Inl e \<Rightarrow> Inl (HTTPException 500 (''Language detection failed: '' @ e))
          | Inr (detected_code, conf) \<Rightarrow>
              Inr \<lparr> detected_lang = detected_code,
                    language_name = dict_get LANGUAGE_NAMES detected_code ''Unknown'',
                    LanguageDetectionResponse.confidence = conf \<rparr>,
          trace))"

subsection \<open>GET /status\<close>

record providers_status =
  deep_translator :: bool
  googletrans :: bool
  mock :: bool

record text_translation_status =
  available :: bool
  providers :: providers_status

record image_translation_status =
  available :: bool
  engine :: "string option"
  installation_guide :: "string option"

record translation_status =
  text_translation :: text_translation_status
  image_translation :: image_translation_status
  supported_languages :: nat
  status :: string

definition get_translation_status :: "world \<Rightarrow> translation_status" where
  "get_translation_status w =
     \<lparr> text_translation =
         \<lparr> text_translation_status.available = True,
           providers = \<lparr> deep_translator = True,
                         googletrans = GOOGLETRANS_AVAILABLE w,
                         mock = True \<rparr> \<rparr>,
       image_translation =
         \<lparr> image_translation_status.available = OCR_AVAILABLE w,
           engine = (if OCR_AVAILABLE w then Some ''EasyOCR'' else None),
           installation_guide = None \<rparr>,
       supported_languages = length LANGUAGE_NAMES,
       status = ''healthy'' \<rparr>"

subsection \<open>POST /simple\<close>

definition translate_text_simple ::
  "world \<Rightarrow> TranslationRequest \<Rightarrow> TranslationResponse outcome" where
  "translate_text_simple w payload =
     translate_text w
       (payload\<lparr> TranslationRequest.provider :=
          Some (py_or (TranslationRequest.provider payload) ''deep'') \<rparr>)"

subsection \<open>Example collaborators\<close>

text \<open>
  Processes, uploads and requests to evaluate the handlers on. In \<open>demo_world\<close> every
  engine is installed and answers, and the reader detects the two fragments of the
  specification's example; in \<open>offline_world\<close> googletrans and EasyOCR are missing and
  deep-translator fails.
\<close>

definition demo_detections :: "detection list" where
  "demo_detections = [([], ''Hi'', round_double 0.9), ([], ''there'', round_double 0.7)]"

definition demo_world :: world where
  "demo_world =
     \<lparr> GoogleTranslator = (\<lambda>source target txt. Inr txt),
       googletrans_import = Some \<lparr> translate = (\<lambda>txt src dest. Inr (txt, None)),
                                   detect = (\<lambda>txt. Inr (''hi'', round_double 0.8)) \<rparr>,
       easyocr_Reader = Inr (\<lambda>image. Inr demo_detections) \<rparr>"

definition offline_world :: world where
  "offline_world =
     \<lparr> GoogleTranslator = (\<lambda>source target txt. Inl ''connection refused''),
       googletrans_import = None,
       easyocr_Reader = Inl ''No module named easyocr'' \<rparr>"

definition demo_image :: UploadFile where
  "demo_image = \<lparr> content_type = Some ''image/png'', read = Inr ''PNG'' \<rparr>"

definition demo_request :: TranslationRequest where
  "demo_request =
     \<lparr> text = ''hello'', TranslationRequest.target_lang = ''hi'',
       TranslationRequest.source_lang = None, TranslationRequest.provider = Some ''mock'' \<rparr>"

text \<open>
  EasyOCR installed, googletrans not: the same detections as \<open>demo_world\<close>.
\<close>

definition no_googletrans_world :: world where
  "no_googletrans_world = demo_world\<lparr> googletrans_import := None \<rparr>"

text \<open>
  A reader whose first detection has empty text, with the confidences \<open>0.1\<close>,
  \<open>0.2\<close> and \<open>0.3\<close>.
\<close>

definition blank_fragment_detections :: "detection list" where
  "blank_fragment_detections =
     [([], '''', round_double 0.1), ([], ''Hi'', round_double 0.2),
      ([], ''there'', round_double 0.3)]"

definition blank_fragment_world :: world where
  "blank_fragment_world =
     \<lparr> GoogleTranslator = (\<lambda>source target txt. Inr txt),
       googletrans_import = None,
       easyocr_Reader = Inr (\<lambda>image. Inr blank_fragment_detections) \<rparr>"

definition text_upload :: UploadFile where
  "text_upload = \<lparr> content_type = Some ''text/plain'', read = Inr ''hello'' \<rparr>"

text \<open>Request bodies: one without a \<open>provider\<close> member, one naming an unknown provider.\<close>

definition demo_body :: request_body where
  "demo_body =
     \<lparr> body_text = Value ''hello'', body_target_lang = Value ''hi'',
       body_source_lang = Absent, body_provider = Absent \<rparr>"

definition bing_body :: request_body where
  "bing_body = demo_body\<lparr> body_provider := Value ''bing'' \<rparr>"

section \<open>Properties\<close>

subsection \<open>Built-ins\<close>

lemma upper_hi: "upper ''hi'' = ''HI''"
  by (simp add: upper_def upper_char_def ascii_lowercase_def ascii_uppercase_def)

text \<open>The doubles of the examples, and the two means computed on them.\<close>

lemma round_double_examples:
  "round_double 0.9 = 8106479329266893 / 2 ^ 53"
  "round_double 0.7 = 6305039478318694 / 2 ^ 53"
  "round_double 0.8 = 7205759403792794 / 2 ^ 53"
  "round_double 0.1 = 7205759403792794 / 2 ^ 56"
  "round_double 0.2 = 7205759403792794 / 2 ^ 55"
  "round_double 0.3 = 5404319552844595 / 2 ^ 54"
  "round_double 0.95 = 8556839292003942 / 2 ^ 53"
  by code_simp+

lemma demo_mean:
  "float_div (py_sum (map (\<lambda>(_, t, conf). conf) demo_detections))
     (float_of_nat (length demo_detections)) = round_double 0.8"
  by code_simp

lemma blank_fragment_mean:
  "float_div (py_sum (map (\<lambda>(_, t, conf). conf) blank_fragment_detections))
     (float_of_nat (length blank_fragment_detections)) = 7205759403792795 / 2 ^ 55"
  by code_simp

lemma blank_fragment_exact_mean:
  "(round_double 0.1 + round_double 0.2 + round_double 0.3) / 3 \<noteq> 7205759403792795 / 2 ^ 55"
  "round_double ((round_double 0.1 + round_double 0.2 + round_double 0.3) / 3)
     \<noteq> 7205759403792795 / 2 ^ 55"
  by code_simp+

lemma strip_Nil: "strip [] = []"
  by (simp add: strip_def)

lemma strip_Hi_there: "strip ''Hi there'' = ''Hi there''"
  by (simp add: strip_def isspace_def whitespace_def)

lemma strip_Hi_there_padded: "strip '' Hi there'' = ''Hi there''"
  by (simp add: strip_def isspace_def whitespace_def)

subsection \<open>The stages of \<open>translate_image\<close>\<close>

text \<open>
  One equation for each way through the handler: the exception raised at each check, and
  the provider dispatch once text was extracted.
\<close>

lemma ocr_stage_of_reader:
  assumes "easyocr_Reader w = Inr reader"
  shows "OCR_AVAILABLE w" "EASYOCR_READER w = Some reader"
  using assms by (simp_all add: OCR_AVAILABLE_def EASYOCR_READER_def setup_ocr_def)

lemma translate_image_unavailable:
  "\<not> OCR_AVAILABLE w \<Longrightarrow>
   translate_image w file tgt src pv =
     (Inl (HTTPException 503
        ''OCR engine (EasyOCR) is not initialized. Please check server logs.''), [])"
  by (simp add: translate_image_def)


lemma translate_image_stage:
  assumes "OCR_AVAILABLE w" "content_type file = Some ct" "startswith ct ''image/''"
      "read file = Inr image_data" "EASYOCR_READER w = Some reader"
      "reader image_data = Inr results"
      "strip (join '' '' (map (\<lambda>(_, t, conf). t) results)) \<noteq> []"
  shows "translate_image w file tgt src pv =
     (let extracted = join '' '' (map (\<lambda>(_, t, conf). t) results);
          confidences = map (\<lambda>(_, t, conf). conf) results;
          (dispatched, trace) =
            (if pv = ''mock'' then
              (Inr (mock_translate extracted tgt, True, ''mock''), [])
            else if pv = ''google'' then
              (case translate_with_googletrans w extracted (py_or src ''auto'') tgt of
                 (Inl e, tr) \<Rightarrow> (Inl e, tr)
               | (Inr res, tr) \<Rightarrow> (Inr (res, False, ''google-translate''), tr))
            else
              (case translate_with_deep_translator w extracted (py_or src ''auto'') tgt of
                 (Inl e, tr) \<Rightarrow> (Inl e, tr)
               | (Inr res, tr) \<Rightarrow> (Inr (res, False, ''deep-translator''), tr)))
      in ((case dispatched of
        Inl e \<Rightarrow> Inl e
      | Inr ((translated, c), mock_flag, provider_name) \<Rightarrow>
          Inr \<lparr> extracted_text = strip extracted,
                 ImageTranslationResponse.translated_text = translated,
                 ImageTranslationResponse.source_lang =
                   (if py_or src ''auto'' \<noteq> ''auto'' then py_or src ''auto'' else ''en''),
                 ImageTranslationResponse.target_lang = tgt,
                 ImageTranslationResponse.provider = provider_name,
                 ocr_confidence =
                   (if confidences \<noteq> []
                    then Some (float_div (py_sum confidences)
                                                  (float_of_nat (length confidences)))
                    else None),
                 ImageTranslationResponse.is_mock = mock_flag \<rparr>),
           [FileRead, Readtext image_data] @ trace))"
  unfolding translate_image_def Let_def using assms
  by (simp only: if_True if_False not_True_eq_False not_False_eq_True option.case sum.case simp_thms)

lemma translate_image_blank:
  assumes "OCR_AVAILABLE w" "content_type file = Some ct" "startswith ct ''image/''"
      "read file = Inr image_data" "EASYOCR_READER w = Some reader"
      "reader image_data = Inr results"
      "strip (join '' '' (map (\<lambda>(_, t, conf). t) results)) = []"
  shows "translate_image w file tgt src pv =
     (Inl (HTTPException 400
        ''No text found in image. Please upload an image with clear text.''),
      [FileRead, Readtext image_data])"
  unfolding translate_image_def Let_def using assms
  by (simp only: if_True if_False not_True_eq_False not_False_eq_True option.case sum.case simp_thms)

lemma translate_image_no_content_type:
  assumes "OCR_AVAILABLE w" "content_type file = None"
  shows "translate_image w file tgt src pv = (Inl (Uncaught ''AttributeError''), [])"
  unfolding translate_image_def using assms
  by (simp only: if_True if_False not_True_eq_False not_False_eq_True option.case sum.case simp_thms)

lemma translate_image_not_image:
  assumes "OCR_AVAILABLE w" "content_type file = Some ct" "\<not> startswith ct ''image/''"
  shows "translate_image w file tgt src pv =
     (Inl (HTTPException 400 ''File must be an image''), [])"
  unfolding translate_image_def using assms
  by (simp only: if_True if_False not_True_eq_False not_False_eq_True option.case sum.case simp_thms)

lemma translate_image_read_fails:
  assumes "OCR_AVAILABLE w" "content_type file = Some ct" "startswith ct ''image/''"
      "read file = Inl e"
  shows "translate_image w file tgt src pv =
     (Inl (HTTPException 500 (''Failed to process image: '' @ e)), [FileRead])"
  unfolding translate_image_def using assms
  by (simp only: if_True if_False not_True_eq_False not_False_eq_True option.case sum.case simp_thms)

lemma translate_image_no_reader:
  assumes "OCR_AVAILABLE w" "content_type file = Some ct" "startswith ct ''image/''"
      "read file = Inr image_data" "EASYOCR_READER w = None"
  shows "translate_image w file tgt src pv =
     (Inl (HTTPException 500
        (''Failed to process image: '' @ ''NoneType object has no attribute readtext'')),
      [FileRead])"
  unfolding translate_image_def using assms
  by (simp only: if_True if_False not_True_eq_False not_False_eq_True option.case sum.case simp_thms)

lemma translate_image_readtext_fails:
  assumes "OCR_AVAILABLE w" "content_type file = Some ct" "startswith ct ''image/''"
      "read file = Inr image_data" "EASYOCR_READER w = Some reader"
      "reader image_data = Inl e"
  shows "translate_image w file tgt src pv =
     (Inl (HTTPException 500 (''Failed to process image: '' @ e)),
      [FileRead, Readtext image_data])"
  unfolding translate_image_def using assms
  by (simp only: if_True if_False not_True_eq_False not_False_eq_True option.case sum.case simp_thms)

lemma translate_image_success:
  assumes ok: "translate_image w file tgt src pv = (Inr r, tr)"
  obtains ct image_data reader results where
    "OCR_AVAILABLE w" "content_type file = Some ct" "startswith ct ''image/''"
    "read file = Inr image_data" "EASYOCR_READER w = Some reader"
    "reader image_data = Inr results"
    "strip (join '' '' (map (\<lambda>(_, t, conf). t) results)) \<noteq> []"
proof -
  have a: "OCR_AVAILABLE w"
    using ok translate_image_unavailable [of w "file" tgt src pv] by auto
  obtain ct where ct: "content_type file = Some ct"
    using ok translate_image_no_content_type [OF a, of "file" tgt src pv]
    by (cases "content_type file") auto
  have sw: "startswith ct ''image/''"
    using ok translate_image_not_image [OF a ct, of tgt src pv] by auto
  obtain image_data where rd: "read file = Inr image_data"
    using ok translate_image_read_fails [OF a ct sw, of _ tgt src pv]
    by (cases "read file") auto
  obtain reader where re: "EASYOCR_READER w = Some reader"
    using ok translate_image_no_reader [OF a ct sw rd, of tgt src pv]
    by (cases "EASYOCR_READER w") auto
  obtain results where rs: "reader image_data = Inr results"
    using ok translate_image_readtext_fails [OF a ct sw rd re, of _ tgt src pv]
    by (cases "reader image_data") auto
  have nb: "strip (join '' '' (map (\<lambda>(_, t, conf). t) results)) \<noteq> []"
    using ok translate_image_blank [OF a ct sw rd re rs, of tgt src pv] by auto
  show thesis using that [OF a ct sw rd re rs nb] .
qed

lemma translate_image_success_fields:
  assumes "OCR_AVAILABLE w" "content_type file = Some ct" "startswith ct ''image/''"
      "read file = Inr image_data" "EASYOCR_READER w = Some reader"
      "reader image_data = Inr results"
      "strip (join '' '' (map (\<lambda>(_, t, conf). t) results)) \<noteq> []"
      "translate_image w file tgt src pv = (Inr r, tr)"
  shows "extracted_text r = strip (join '' '' (map (\<lambda>(_, t, conf). t) results))"
    and "ocr_confidence r =
           (if results \<noteq> []
            then Some (float_div (py_sum (map (\<lambda>(_, t, conf). conf) results))
                         (float_of_nat (length results)))
            else None)"
    and "ImageTranslationResponse.source_lang r =
           (if py_or src ''auto'' \<noteq> ''auto'' then py_or src ''auto'' else ''en'')"
    and "ImageTranslationResponse.is_mock r = (pv = ''mock'')"
  using assms(8) unfolding translate_image_stage [OF assms(1-7)] Let_def
  by (auto split: prod.splits sum.splits if_splits)

subsection \<open>The branches of \<open>translate_text\<close>\<close>

lemma translate_text_mock_provider:
  assumes "TranslationRequest.provider p = Some ''mock''"
  shows "translate_text w p =
     (Inr \<lparr> original_text = text p,
            translated_text = ''['' @ upper (TranslationRequest.target_lang p) @ ''] '' @ text p,
            TranslationResponse.source_lang =
              (if py_or (TranslationRequest.source_lang p) ''auto'' = ''auto'' then ''en''
               else py_or (TranslationRequest.source_lang p) ''auto''),
            TranslationResponse.target_lang = TranslationRequest.target_lang p,
            TranslationResponse.provider = ''mock'',
            TranslationResponse.confidence = Some 1,
            TranslationResponse.is_mock = True \<rparr>, [])"
  using assms by (simp add: translate_text_def mock_translate_def Let_def)

lemma translate_text_google_provider:
  assumes "TranslationRequest.provider p = Some ''google''"
  shows "translate_text w p =
     (case translate_with_googletrans w (text p)
             (py_or (TranslationRequest.source_lang p) ''auto'')
             (TranslationRequest.target_lang p) of
        (Inl e, tr) \<Rightarrow> (Inl e, tr)
      | (Inr (translated, conf), tr) \<Rightarrow>
          (Inr \<lparr> original_text = text p,
                 translated_text = translated,
                 TranslationResponse.source_lang =
                   (if py_or (TranslationRequest.source_lang p) ''auto'' = ''auto'' then ''en''
                    else py_or (TranslationRequest.source_lang p) ''auto''),
                 TranslationResponse.target_lang = TranslationRequest.target_lang p,
                 TranslationResponse.provider = ''google-translate'',
                 TranslationResponse.confidence = Some conf,
                 TranslationResponse.is_mock = False \<rparr>, tr))"
  using assms by (simp add: translate_text_def Let_def split: prod.split sum.split)

lemma translate_text_deep_provider:
  assumes "TranslationRequest.provider p \<noteq> Some ''mock''"
      "TranslationRequest.provider p \<noteq> Some ''google''"
  shows "translate_text w p =
     (case GoogleTranslator w
             (dict_get DEEP_TRANSLATOR_CODES
                (py_or (TranslationRequest.source_lang p) ''auto'') ''auto'')
             (dict_get DEEP_TRANSLATOR_CODES (TranslationRequest.target_lang p) ''en'')
             (text p) of
        Inl e \<Rightarrow> Inl (HTTPException 500 (''Translation failed: '' @ e))
      | Inr translated \<Rightarrow>
          Inr \<lparr> original_text = text p,
                translated_text = translated,
                TranslationResponse.source_lang =
                  (if py_or (TranslationRequest.source_lang p) ''auto'' = ''auto'' then ''en''
                   else py_or (TranslationRequest.source_lang p) ''auto''),
                TranslationResponse.target_lang = TranslationRequest.target_lang p,
                TranslationResponse.provider = ''deep-translator'',
                TranslationResponse.confidence = Some (round_double 0.95),
                TranslationResponse.is_mock = False \<rparr>,
      [DeepTranslate
         (dict_get DEEP_TRANSLATOR_CODES
            (py_or (TranslationRequest.source_lang p) ''auto'') ''auto'')
         (dict_get DEEP_TRANSLATOR_CODES (TranslationRequest.target_lang p) ''en'')
         (text p)])"
  using assms
  by (simp add: translate_text_def translate_with_deep_translator_def Let_def
           split: prod.split sum.split)

lemma translate_text_success:
  assumes "translate_text w p = (Inr r, tr)"
  shows "TranslationResponse.source_lang r =
           (if py_or (TranslationRequest.source_lang p) ''auto'' = ''auto'' then ''en''
            else py_or (TranslationRequest.source_lang p) ''auto'')"
    and "TranslationResponse.is_mock r = (TranslationRequest.provider p = Some ''mock'')"
    and "TranslationResponse.is_mock r \<Longrightarrow> TranslationResponse.provider r = ''mock''"
    and "TranslationResponse.is_mock r \<Longrightarrow> TranslationResponse.confidence r = Some 1"
proof -
  consider (m) "TranslationRequest.provider p = Some ''mock''"
    | (g) "TranslationRequest.provider p = Some ''google''"
    | (d) "TranslationRequest.provider p \<noteq> Some ''mock''"
          "TranslationRequest.provider p \<noteq> Some ''google''"
    by blast
  then have "TranslationResponse.source_lang r =
           (if py_or (TranslationRequest.source_lang p) ''auto'' = ''auto'' then ''en''
            else py_or (TranslationRequest.source_lang p) ''auto'') \<and>
      TranslationResponse.is_mock r = (TranslationRequest.provider p = Some ''mock'') \<and>
      (TranslationResponse.is_mock r \<longrightarrow> TranslationResponse.provider r = ''mock'' \<and>
         TranslationResponse.confidence r = Some 1)"
  proof cases
    case m
    show ?thesis using assms m unfolding translate_text_mock_provider [OF m] by auto
  next
    case g
    show ?thesis using assms g unfolding translate_text_google_provider [OF g]
      by (auto split: prod.splits sum.splits)
  next
    case d
    show ?thesis using assms d unfolding translate_text_deep_provider [OF d]
      by (auto split: sum.splits)
  qed
  then show "TranslationResponse.source_lang r =
           (if py_or (TranslationRequest.source_lang p) ''auto'' = ''auto'' then ''en''
            else py_or (TranslationRequest.source_lang p) ''auto'')"
    and "TranslationResponse.is_mock r = (TranslationRequest.provider p = Some ''mock'')"
    and "TranslationResponse.is_mock r \<Longrightarrow> TranslationResponse.provider r = ''mock''"
    and "TranslationResponse.is_mock r \<Longrightarrow> TranslationResponse.confidence r = Some 1"
    by blast+
qed

subsection \<open>The examples, evaluated\<close>

lemma demo_world_ocr:
  "OCR_AVAILABLE demo_world"
  "EASYOCR_READER demo_world = Some (\<lambda>image. Inr demo_detections)"
  by (simp_all add: OCR_AVAILABLE_def EASYOCR_READER_def setup_ocr_def demo_world_def)

lemma demo_detections_text:
  "join '' '' (map (\<lambda>(_, t, conf). t) demo_detections) = ''Hi there''"
  "demo_detections \<noteq> []"
  by (simp_all add: demo_detections_def)

lemma blank_fragment_detections_text:
  "join '' '' (map (\<lambda>(_, t, conf). t) blank_fragment_detections) = '' Hi there''"
  "blank_fragment_detections \<noteq> []"
  by (simp_all add: blank_fragment_detections_def)

lemma demo_image_fields:
  "content_type demo_image = Some ''image/png''" "startswith ''image/png'' ''image/''"
  "read demo_image = Inr ''PNG''"
  by (simp_all add: demo_image_def startswith_def)

lemma demo_translate_image:
  "translate_image demo_world demo_image ''hi'' None ''mock'' =
     (Inr \<lparr> extracted_text = ''Hi there'',
            ImageTranslationResponse.translated_text = ''[HI] Hi there'',
            ImageTranslationResponse.source_lang = ''en'',
            ImageTranslationResponse.target_lang = ''hi'',
            ImageTranslationResponse.provider = ''mock'',
            ocr_confidence = Some (round_double 0.8),
            ImageTranslationResponse.is_mock = True \<rparr>,
      [FileRead, Readtext ''PNG''])"
proof -
  have nb: "strip (join '' '' (map (\<lambda>(_, t, conf). t) demo_detections)) \<noteq> []"
    by (simp add: demo_detections_text strip_Hi_there)
  show ?thesis
    unfolding translate_image_stage [OF demo_world_ocr(1) demo_image_fields(1,2,3)
        demo_world_ocr(2) refl nb]
    by (simp add: Let_def mock_translate_def upper_hi strip_Hi_there demo_detections_text
          demo_mean)
qed

lemma demo_translate_text:
  "translate_text demo_world demo_request =
     (Inr \<lparr> original_text = ''hello'', translated_text = ''[HI] hello'',
            TranslationResponse.source_lang = ''en'',
            TranslationResponse.target_lang = ''hi'',
            TranslationResponse.provider = ''mock'',
            TranslationResponse.confidence = Some 1,
            TranslationResponse.is_mock = True \<rparr>, [])"
proof -
  have m: "TranslationRequest.provider demo_request = Some ''mock''"
    by (simp add: demo_request_def)
  show ?thesis
    unfolding translate_text_mock_provider [OF m]
    by (simp add: demo_request_def upper_hi)
qed

lemma translate_with_googletrans_unavailable:
  assumes "googletrans_import w = None"
  shows "translate_with_googletrans w txt src tgt =
     (Inl (HTTPException 503 ''Google Translate API not available. Install googletrans.''), [])"
  using assms by (simp add: translate_with_googletrans_def)

lemma offline_world_ocr: "\<not> OCR_AVAILABLE offline_world"
  by (simp add: OCR_AVAILABLE_def setup_ocr_def offline_world_def)

lemma text_upload_fields:
  "content_type text_upload = Some ''text/plain''" "\<not> startswith ''text/plain'' ''image/''"
  by (simp_all add: text_upload_def startswith_def)

lemma float_of_nat_0: "float_of_nat 0 = 0"
  by (simp add: float_of_nat_def round_double_def)

lemma py_sum_foldl: "py_sum xs = foldl float_add 0 xs"
  by (simp add: py_sum_def float_of_nat_0)

lemma blank_fragment_translate_image:
  "translate_image blank_fragment_world demo_image ''hi'' None ''mock'' =
     (Inr \<lparr> extracted_text = ''Hi there'',
            ImageTranslationResponse.translated_text = ''[HI]  Hi there'',
            ImageTranslationResponse.source_lang = ''en'',
            ImageTranslationResponse.target_lang = ''hi'',
            ImageTranslationResponse.provider = ''mock'',
            ocr_confidence = Some (7205759403792795 / 2 ^ 55),
            ImageTranslationResponse.is_mock = True \<rparr>,
      [FileRead, Readtext ''PNG''])"
proof -
  have h: "easyocr_Reader blank_fragment_world = Inr (\<lambda>image. Inr blank_fragment_detections)"
    by (simp add: blank_fragment_world_def)
  have nb: "strip (join '' '' (map (\<lambda>(_, t, conf). t) blank_fragment_detections)) \<noteq> []"
    by (simp add: blank_fragment_detections_text strip_Hi_there_padded)
  show ?thesis
    unfolding translate_image_stage [OF ocr_stage_of_reader(1) [OF h] demo_image_fields(1,2,3)
        ocr_stage_of_reader(2) [OF h] refl nb]
    by (simp add: Let_def mock_translate_def upper_hi strip_Hi_there_padded
          blank_fragment_detections_text blank_fragment_mean)
qed

subsection \<open>Validation of the request body\<close>

lemma translate_text_other_provider:
  assumes "TranslationRequest.provider p \<noteq> Some ''mock''"
      "TranslationRequest.provider p \<noteq> Some ''google''"
      "q \<noteq> ''mock''" "q \<noteq> ''google''"
  shows "translate_text w (p\<lparr>TranslationRequest.provider := Some q\<rparr>) = translate_text w p"
proof -
  have d: "TranslationRequest.provider (p\<lparr>TranslationRequest.provider := Some q\<rparr>) \<noteq> Some ''mock''"
      "TranslationRequest.provider (p\<lparr>TranslationRequest.provider := Some q\<rparr>) \<noteq> Some ''google''"
    using assms(3,4) by simp_all
  show ?thesis
    unfolding translate_text_deep_provider [OF d] translate_text_deep_provider [OF assms(1,2)]
    by (simp split: sum.split)
qed

lemma validate_provider:
  assumes "validate_TranslationRequest body = Inr p"
  shows "TranslationRequest.provider p = provider_field (body_provider body)"
  using assms by (auto simp: validate_TranslationRequest_def split: if_splits)

lemma validate_deep_for_unspecified:
  assumes "body_provider body = Absent \<or> body_provider body = Null"
  shows "validate_TranslationRequest (body\<lparr>body_provider := Value ''deep''\<rparr>) =
           (case validate_TranslationRequest body of
              Inl refused \<Rightarrow> Inl refused
            | Inr p \<Rightarrow> Inr (p\<lparr>TranslationRequest.provider := Some ''deep''\<rparr>))"
  using assms
  by (auto simp: validate_TranslationRequest_def validation_errors_def
        valid_optional_literal_def provider_literals_def)

lemma validate_unrecognized:
  assumes "s \<notin> set provider_literals"
  shows "\<exists>refused. validate_TranslationRequest (body\<lparr>body_provider := Value s\<rparr>) = Inl refused \<and>
           ''provider'' \<in> set refused"
  using assms
  by (simp add: validate_TranslationRequest_def validation_errors_def
        valid_optional_literal_def)

lemma demo_body_valid:
  "validate_TranslationRequest demo_body =
     Inr (demo_request\<lparr>TranslationRequest.provider := Some ''deep''\<rparr>)"
  by (simp add: validate_TranslationRequest_def validation_errors_def valid_text_def
        valid_required_literal_def valid_optional_literal_def LanguageCode_def demo_body_def
        demo_request_def)

lemma bing_body_refused:
  "validate_TranslationRequest bing_body = Inl [''provider'']"
  by (simp add: validate_TranslationRequest_def validation_errors_def valid_text_def
        valid_required_literal_def valid_optional_literal_def LanguageCode_def
        provider_literals_def demo_body_def bing_body_def)

lemma bing_body_deep: "bing_body\<lparr>body_provider := Value ''deep''\<rparr> =
    demo_body\<lparr>body_provider := Value ''deep''\<rparr>"
  by (simp add: bing_body_def)

lemma demo_deep_valid:
  "validate_TranslationRequest (demo_body\<lparr>body_provider := Value ''deep''\<rparr>) =
     Inr (demo_request\<lparr>TranslationRequest.provider := Some ''deep''\<rparr>)"
  by (simp add: validate_TranslationRequest_def validation_errors_def valid_text_def
        valid_required_literal_def valid_optional_literal_def LanguageCode_def
        provider_literals_def demo_body_def demo_request_def)

lemma demo_translate_text_deep:
  "translate_text demo_world (demo_request\<lparr>TranslationRequest.provider := Some ''deep''\<rparr>) =
     (Inr \<lparr> original_text = ''hello'', translated_text = ''hello'',
            TranslationResponse.source_lang = ''en'',
            TranslationResponse.target_lang = ''hi'',
            TranslationResponse.provider = ''deep-translator'',
            TranslationResponse.confidence = Some (round_double 0.95),
            TranslationResponse.is_mock = False \<rparr>,
      [DeepTranslate ''auto'' ''hi'' ''hello''])"
proof -
  have h: "TranslationRequest.provider (demo_request\<lparr>TranslationRequest.provider := Some ''deep''\<rparr>)
             \<noteq> Some ''mock''"
     "TranslationRequest.provider (demo_request\<lparr>TranslationRequest.provider := Some ''deep''\<rparr>)
             \<noteq> Some ''google''"
    by simp_all
  show ?thesis
    unfolding translate_text_deep_provider [OF h]
    by (simp add: demo_request_def demo_world_def dict_get_def DEEP_TRANSLATOR_CODES_def)
qed

section \<open>Claims\<close>

subsection \<open>Source language left to auto-detection\<close>

text \<open>
  C1. When \<open>source_lang\<close> is omitted, or resolves to \<open>auto\<close> (as \<open>None\<close>, the
  empty string and \<open>auto\<close> itself do under \<open>or "auto"\<close>), every response returned by
  \<open>translate_text\<close> and every response returned by \<open>translate_image\<close> has
  \<open>source_lang = "en"\<close>, whatever the text, the provider and the engines are.
\<close>

theorem auto_source_lang_reported_as_en:
  assumes "py_or src ''auto'' = ''auto''"
  shows "(\<forall>r tr. translate_text w (p\<lparr>TranslationRequest.source_lang := src\<rparr>) = (Inr r, tr)
            \<longrightarrow> TranslationResponse.source_lang r = ''en'') \<and>
         (\<forall>r tr. translate_image w file tgt src pv = (Inr r, tr)
            \<longrightarrow> ImageTranslationResponse.source_lang r = ''en'')"
proof (intro conjI allI impI)
  fix r tr
  assume "translate_text w (p\<lparr>TranslationRequest.source_lang := src\<rparr>) = (Inr r, tr)"
  from translate_text_success(1) [OF this] assms
  show "TranslationResponse.source_lang r = ''en''" by simp
next
  fix r tr
  assume ok: "translate_image w file tgt src pv = (Inr r, tr)"
  then obtain ct image_data reader results where st:
    "OCR_AVAILABLE w" "content_type file = Some ct" "startswith ct ''image/''"
    "read file = Inr image_data" "EASYOCR_READER w = Some reader"
    "reader image_data = Inr results"
    "strip (join '' '' (map (\<lambda>(_, t, conf). t) results)) \<noteq> []"
    by (rule translate_image_success)
  from translate_image_success_fields(3) [OF st ok] assms
  show "ImageTranslationResponse.source_lang r = ''en''" by simp
qed

text \<open>
  C1, at an example: a request and an upload without \<open>source_lang\<close>, translated by
  the mock provider.
\<close>

theorem auto_source_lang_reported_as_en_witness:
  "py_or None ''auto'' = ''auto'' \<and>
   fst (translate_text demo_world demo_request) =
     Inr \<lparr> original_text = ''hello'', translated_text = ''[HI] hello'',
           TranslationResponse.source_lang = ''en'',
           TranslationResponse.target_lang = ''hi'',
           TranslationResponse.provider = ''mock'',
           TranslationResponse.confidence = Some 1,
           TranslationResponse.is_mock = True \<rparr> \<and>
   fst (translate_image demo_world demo_image ''hi'' None ''mock'') =
     Inr \<lparr> extracted_text = ''Hi there'',
           ImageTranslationResponse.translated_text = ''[HI] Hi there'',
           ImageTranslationResponse.source_lang = ''en'',
           ImageTranslationResponse.target_lang = ''hi'',
           ImageTranslationResponse.provider = ''mock'',
           ocr_confidence = Some (round_double 0.8),
           ImageTranslationResponse.is_mock = True \<rparr>"
proof -
  have h: "py_or None ''auto'' = ''auto''" by simp
  have u: "demo_request\<lparr>TranslationRequest.source_lang := None\<rparr> = demo_request"
    by (simp add: demo_request_def)
  from auto_source_lang_reported_as_en [OF h, of demo_world demo_request demo_image "''hi''" "''mock''"]
  show ?thesis
    unfolding u by (simp add: h demo_translate_text demo_translate_image)
qed

subsection \<open>The mock provider\<close>

text \<open>
  C2. \<open>mock_translate\<close> returns \<open>"[" + upper(target_lang) + "] " + text\<close> with
  confidence 1.0 for every text and target language. A \<open>/translate\<close> call with provider
  \<open>mock\<close> always returns a response, calls no engine and gives the same result whatever
  the engines are; the response has \<open>is_mock\<close> true. Translating \<open>hello\<close> to
  \<open>hi\<close> gives \<open>[HI] hello\<close> with confidence 1.0 and \<open>is_mock\<close> true.
\<close>

theorem mock_translate_prefixes_target:
  "mock_translate txt tgt = (''['' @ upper tgt @ ''] '' @ txt, 1) \<and>
   translate_text w (p\<lparr>TranslationRequest.provider := Some ''mock''\<rparr>) =
     (Inr \<lparr> original_text = text p,
            translated_text = ''['' @ upper (TranslationRequest.target_lang p) @ ''] '' @ text p,
            TranslationResponse.source_lang =
              (if py_or (TranslationRequest.source_lang p) ''auto'' = ''auto'' then ''en''
               else py_or (TranslationRequest.source_lang p) ''auto''),
            TranslationResponse.target_lang = TranslationRequest.target_lang p,
            TranslationResponse.provider = ''mock'',
            TranslationResponse.confidence = Some 1,
            TranslationResponse.is_mock = True \<rparr>, []) \<and>
   translate_text w (p\<lparr>TranslationRequest.provider := Some ''mock''\<rparr>) =
     translate_text w' (p\<lparr>TranslationRequest.provider := Some ''mock''\<rparr>) \<and>
   mock_translate ''hello'' ''hi'' = (''[HI] hello'', 1) \<and>
   translate_text w
     \<lparr> text = ''hello'', TranslationRequest.target_lang = ''hi'',
       TranslationRequest.source_lang = src, TranslationRequest.provider = Some ''mock'' \<rparr> =
     (Inr \<lparr> original_text = ''hello'', translated_text = ''[HI] hello'',
            TranslationResponse.source_lang =
              (if py_or src ''auto'' = ''auto'' then ''en'' else py_or src ''auto''),
            TranslationResponse.target_lang = ''hi'',
            TranslationResponse.provider = ''mock'',
            TranslationResponse.confidence = Some 1,
            TranslationResponse.is_mock = True \<rparr>, [])"
proof -
  have a: "mock_translate s t = (''['' @ upper t @ ''] '' @ s, 1)" for s t
    by (simp add: mock_translate_def Let_def)
  have b: "translate_text v (q\<lparr>TranslationRequest.provider := Some ''mock''\<rparr>) =
     (Inr \<lparr> original_text = text q,
            translated_text = ''['' @ upper (TranslationRequest.target_lang q) @ ''] '' @ text q,
            TranslationResponse.source_lang =
              (if py_or (TranslationRequest.source_lang q) ''auto'' = ''auto'' then ''en''
               else py_or (TranslationRequest.source_lang q) ''auto''),
            TranslationResponse.target_lang = TranslationRequest.target_lang q,
            TranslationResponse.provider = ''mock'',
            TranslationResponse.confidence = Some 1,
            TranslationResponse.is_mock = True \<rparr>, [])" for v q
    by (simp add: translate_text_mock_provider)
  have c: "mock_translate ''hello'' ''hi'' = (''[HI] hello'', 1)"
    by (simp add: a upper_hi)
  have d: "translate_text w
     \<lparr> text = ''hello'', TranslationRequest.target_lang = ''hi'',
       TranslationRequest.source_lang = src, TranslationRequest.provider = Some ''mock'' \<rparr> =
     (Inr \<lparr> original_text = ''hello'', translated_text = ''[HI] hello'',
            TranslationResponse.source_lang =
              (if py_or src ''auto'' = ''auto'' then ''en'' else py_or src ''auto''),
            TranslationResponse.target_lang = ''hi'',
            TranslationResponse.provider = ''mock'',
            TranslationResponse.confidence = Some 1,
            TranslationResponse.is_mock = True \<rparr>, [])"
    by (simp add: translate_text_mock_provider upper_hi)
  show ?thesis
    using a b [of w p] b [of w' p] c d by (simp only: simp_thms)
qed

subsection \<open>OCR engine not initialised\<close>

text \<open>
  C3. When \<open>setup_ocr\<close> failed at import time (\<open>import easyocr\<close> or the
  construction of the reader raised), every \<open>translate_image\<close> call raises the 503
  \<open>HTTPException\<close> for the missing OCR engine, for every upload, language pair and
  provider, and it does so with an empty call list: the file is not read and no text is
  extracted.
\<close>

theorem ocr_init_failure_gives_503:
  assumes "easyocr_Reader w = Inl e"
  shows "setup_ocr w = (False, None) \<and>
         translate_image w file tgt src pv =
           (Inl (HTTPException 503
              ''OCR engine (EasyOCR) is not initialized. Please check server logs.''), [])"
proof -
  have s: "setup_ocr w = (False, None)" using assms by (simp add: setup_ocr_def)
  then have "\<not> OCR_AVAILABLE w" by (simp add: OCR_AVAILABLE_def)
  from translate_image_unavailable [OF this] s show ?thesis by simp
qed

text \<open>
  C3, at an example: EasyOCR is not installed in \<open>offline_world\<close>.
\<close>

theorem ocr_init_failure_gives_503_witness:
  "easyocr_Reader offline_world = Inl ''No module named easyocr'' \<and>
   translate_image offline_world demo_image ''hi'' None ''deep'' =
     (Inl (HTTPException 503
        ''OCR engine (EasyOCR) is not initialized. Please check server logs.''), [])"
proof -
  have h: "easyocr_Reader offline_world = Inl ''No module named easyocr''"
    by (simp add: offline_world_def)
  from ocr_init_failure_gives_503 [OF h] h show ?thesis by simp
qed

subsection \<open>Extracted text and OCR confidence\<close>

text \<open>
  C4, as amended. When the OCR engine is available, the upload is an image and
  \<open>readtext\<close> returns its detections: if the detection texts joined with a single space
  are empty or whitespace only, the call raises the 400 \<open>HTTPException\<close> for an image
  without text; and in every response the call returns, \<open>extracted_text\<close> is the
  detection texts joined with a single space in detection order, with leading and trailing
  whitespace stripped, and \<open>ocr_confidence\<close> is the mean of the detection confidences
  as double arithmetic gives it: the confidences added from the left, starting at 0, and
  the sum divided by their number, each operation rounded to the nearest double.
\<close>

theorem extracted_text_stripped_and_double_mean:
  assumes "easyocr_Reader w = Inr reader" "content_type upload = Some ct"
      "startswith ct ''image/''" "read upload = Inr image_data"
      "reader image_data = Inr results"
  shows "(strip (join '' '' (map (\<lambda>(_, t, conf). t) results)) = [] \<longrightarrow>
            translate_image w upload tgt src pv =
              (Inl (HTTPException 400
                 ''No text found in image. Please upload an image with clear text.''),
               [FileRead, Readtext image_data])) \<and>
         (\<forall>r tr. translate_image w upload tgt src pv = (Inr r, tr) \<longrightarrow>
            extracted_text r = strip (join '' '' (map (\<lambda>(_, t, conf). t) results)) \<and>
            ocr_confidence r =
              Some (float_div (foldl float_add 0 (map (\<lambda>(_, t, conf). conf) results))
                      (float_of_nat (length results))))"
proof -
  note st = ocr_stage_of_reader(1) [OF assms(1)] assms(2,3,4)
    ocr_stage_of_reader(2) [OF assms(1)] assms(5)
  have 1: "translate_image w upload tgt src pv =
              (Inl (HTTPException 400
                 ''No text found in image. Please upload an image with clear text.''),
               [FileRead, Readtext image_data])"
    if "strip (join '' '' (map (\<lambda>(_, t, conf). t) results)) = []"
    using translate_image_blank [OF st that] .
  have 2: "extracted_text r = strip (join '' '' (map (\<lambda>(_, t, conf). t) results)) \<and>
            ocr_confidence r =
              Some (float_div (foldl float_add 0 (map (\<lambda>(_, t, conf). conf) results))
                      (float_of_nat (length results)))"
    if ok: "translate_image w upload tgt src pv = (Inr r, tr)" for r tr
  proof -
    have nb: "strip (join '' '' (map (\<lambda>(_, t, conf). t) results)) \<noteq> []"
      using ok translate_image_blank [OF st, of tgt src pv] by auto
    then have ne: "results \<noteq> []" by (auto simp: strip_Nil)
    from translate_image_success_fields(1,2) [OF st nb ok] ne show ?thesis
      by (simp add: py_sum_foldl)
  qed
  from 1 2 show ?thesis by blast
qed

text \<open>
  C4, at the example of the specification: the detections \<open>("Hi", 0.9)\<close> and
  \<open>("there", 0.7)\<close> give \<open>extracted_text = "Hi there"\<close> and
  \<open>ocr_confidence = 0.8\<close>, each number being the double the literal denotes.
\<close>

theorem extracted_text_stripped_and_double_mean_witness:
  "easyocr_Reader demo_world = Inr (\<lambda>image. Inr demo_detections) \<and>
   demo_detections = [([], ''Hi'', round_double 0.9), ([], ''there'', round_double 0.7)] \<and>
   content_type demo_image = Some ''image/png'' \<and> startswith ''image/png'' ''image/'' \<and>
   read demo_image = Inr ''PNG'' \<and>
   translate_image demo_world demo_image ''hi'' None ''mock'' =
     (Inr \<lparr> extracted_text = ''Hi there'',
            ImageTranslationResponse.translated_text = ''[HI] Hi there'',
            ImageTranslationResponse.source_lang = ''en'',
            ImageTranslationResponse.target_lang = ''hi'',
            ImageTranslationResponse.provider = ''mock'',
            ocr_confidence = Some (round_double 0.8),
            ImageTranslationResponse.is_mock = True \<rparr>,
      [FileRead, Readtext ''PNG'']) \<and>
   strip (join '' '' (map (\<lambda>(_, t, conf). t) demo_detections)) = ''Hi there'' \<and>
   float_div (foldl float_add 0 (map (\<lambda>(_, t, conf). conf) demo_detections))
     (float_of_nat (length demo_detections)) = round_double 0.8"
proof -
  have h: "easyocr_Reader demo_world = Inr (\<lambda>image. Inr demo_detections)"
    by (simp add: demo_world_def)
  note e = demo_translate_image
  note T = extracted_text_stripped_and_double_mean
             [OF h demo_image_fields refl, where tgt = "''hi''" and src = None
                and pv = "''mock''"]
  note F = T [THEN conjunct2, THEN spec, THEN spec, THEN mp, OF e]
  have x: "strip (join '' '' (map (\<lambda>(_, t, conf). t) demo_detections)) = ''Hi there''"
    using F [THEN conjunct1] by simp
  have c: "float_div (foldl float_add 0 (map (\<lambda>(_, t, conf). conf) demo_detections))
     (float_of_nat (length demo_detections)) = round_double 0.8"
    using F [THEN conjunct2] by simp
  show ?thesis
    by (intro conjI) (rule h demo_detections_def demo_image_fields e x c)+
qed

text \<open>
  C4 as it was stated fails in both of its results. With the detections \<open>("", 0.1)\<close>,
  \<open>("Hi", 0.2)\<close> and \<open>("there", 0.3)\<close> the joined text is \<open>" Hi there"\<close>, while
  the response carries \<open>extracted_text = "Hi there"\<close>, since the handler returns
  \<open>extracted_text.strip()\<close> (the translation is made from the text before stripping).
  And \<open>ocr_confidence\<close> is \<open>0.20000000000000004\<close>, the double one step above
  \<open>0.2\<close>: it is neither the arithmetic mean of the three confidences nor the double
  nearest to that mean.
\<close>

theorem extracted_text_and_mean_counterexample:
  "translate_image blank_fragment_world demo_image ''hi'' None ''mock'' =
     (Inr \<lparr> extracted_text = ''Hi there'',
            ImageTranslationResponse.translated_text = ''[HI]  Hi there'',
            ImageTranslationResponse.source_lang = ''en'',
            ImageTranslationResponse.target_lang = ''hi'',
            ImageTranslationResponse.provider = ''mock'',
            ocr_confidence = Some (7205759403792795 / 2 ^ 55),
            ImageTranslationResponse.is_mock = True \<rparr>,
      [FileRead, Readtext ''PNG'']) \<and>
   blank_fragment_detections =
     [([], '''', round_double 0.1), ([], ''Hi'', round_double 0.2),
      ([], ''there'', round_double 0.3)] \<and>
   join '' '' ['''', ''Hi'', ''there''] \<noteq> ''Hi there'' \<and>
   (round_double 0.1 + round_double 0.2 + round_double 0.3) / 3
     \<noteq> 7205759403792795 / 2 ^ 55 \<and>
   round_double ((round_double 0.1 + round_double 0.2 + round_double 0.3) / 3)
     \<noteq> 7205759403792795 / 2 ^ 55"
proof -
  have j: "join '' '' ['''', ''Hi'', ''there''] \<noteq> ''Hi there''" by simp
  show ?thesis
    by (intro conjI)
       (rule blank_fragment_translate_image blank_fragment_detections_def j
          blank_fragment_exact_mean)+
qed

subsection \<open>Default provider\<close>

text \<open>
  C5, as amended. A \<open>/translate\<close> request whose \<open>provider\<close> is unspecified
  (the member is absent, which gives the default \<open>"deep"\<close>, or \<open>null\<close>) has the
  outcome of the same request with \<open>provider\<close> \<open>"deep"\<close>: when the body validates,
  the deep-translator engine is called once, with the mapped language codes and the text,
  its failure becomes the 500 \<open>HTTPException\<close> and its result the response, which names
  \<open>deep-translator\<close> as provider. A request whose \<open>provider\<close> is a string other than
  \<open>"deep"\<close>, \<open>"google"\<close> and \<open>"mock"\<close> is refused by the validation of the body,
  before any dispatch.
\<close>

theorem unspecified_provider_dispatches_to_deep_translator:
  assumes "body_provider body = Absent \<or> body_provider body = Null"
  shows "post_translate w body = post_translate w (body\<lparr>body_provider := Value ''deep''\<rparr>) \<and>
         (\<forall>p. validate_TranslationRequest body = Inr p \<longrightarrow>
            post_translate w body =
              (case GoogleTranslator w
                      (dict_get DEEP_TRANSLATOR_CODES
                         (py_or (TranslationRequest.source_lang p) ''auto'') ''auto'')
                      (dict_get DEEP_TRANSLATOR_CODES (TranslationRequest.target_lang p) ''en'')
                      (text p) of
                 Inl e \<Rightarrow> Inl (HTTPException 500 (''Translation failed: '' @ e))
               | Inr translated \<Rightarrow>
                   Inr \<lparr> original_text = text p,
                         translated_text = translated,
                         TranslationResponse.source_lang =
                           (if py_or (TranslationRequest.source_lang p) ''auto'' = ''auto''
                            then ''en''
                            else py_or (TranslationRequest.source_lang p) ''auto''),
                         TranslationResponse.target_lang = TranslationRequest.target_lang p,
                         TranslationResponse.provider = ''deep-translator'',
                         TranslationResponse.confidence = Some (round_double 0.95),
                         TranslationResponse.is_mock = False \<rparr>,
               [DeepTranslate
                  (dict_get DEEP_TRANSLATOR_CODES
                     (py_or (TranslationRequest.source_lang p) ''auto'') ''auto'')
                  (dict_get DEEP_TRANSLATOR_CODES (TranslationRequest.target_lang p) ''en'')
                  (text p)])) \<and>
         (s \<notin> set provider_literals \<longrightarrow>
            (\<exists>refused. post_translate w (body\<lparr>body_provider := Value s\<rparr>) =
                          (Inl (RequestValidationError refused), []) \<and>
                        ''provider'' \<in> set refused))"
proof -
  have other: "TranslationRequest.provider p \<noteq> Some ''mock''"
      "TranslationRequest.provider p \<noteq> Some ''google''"
    if "validate_TranslationRequest body = Inr p" for p
    using assms validate_provider [OF that] by auto
  have 1: "post_translate w body = post_translate w (body\<lparr>body_provider := Value ''deep''\<rparr>)"
  proof (cases "validate_TranslationRequest body")
    case (Inl refused)
    then show ?thesis
      by (simp add: post_translate_def validate_deep_for_unspecified [OF assms])
  next
    case (Inr p)
    have "translate_text w (p\<lparr>TranslationRequest.provider := Some ''deep''\<rparr>) = translate_text w p"
      by (rule translate_text_other_provider [OF other [OF Inr]]) simp_all
    with Inr show ?thesis
      by (simp add: post_translate_def validate_deep_for_unspecified [OF assms])
  qed
  have 2: "post_translate w body =
              (case GoogleTranslator w
                      (dict_get DEEP_TRANSLATOR_CODES
                         (py_or (TranslationRequest.source_lang p) ''auto'') ''auto'')
                      (dict_get DEEP_TRANSLATOR_CODES (TranslationRequest.target_lang p) ''en'')
                      (text p) of
                 Inl e \<Rightarrow> Inl (HTTPException 500 (''Translation failed: '' @ e))
               | Inr translated \<Rightarrow>
                   Inr \<lparr> original_text = text p,
                         translated_text = translated,
                         TranslationResponse.source_lang =
                           (if py_or (TranslationRequest.source_lang p) ''auto'' = ''auto''
                            then ''en''
                            else py_or (TranslationRequest.source_lang p) ''auto''),
                         TranslationResponse.target_lang = TranslationRequest.target_lang p,
                         TranslationResponse.provider = ''deep-translator'',
                         TranslationResponse.confidence = Some (round_double 0.95),
                         TranslationResponse.is_mock = False \<rparr>,
               [DeepTranslate
                  (dict_get DEEP_TRANSLATOR_CODES
                     (py_or (TranslationRequest.source_lang p) ''auto'') ''auto'')
                  (dict_get DEEP_TRANSLATOR_CODES (TranslationRequest.target_lang p) ''en'')
                  (text p)])"
    if v: "validate_TranslationRequest body = Inr p" for p
  proof -
    have "post_translate w body = translate_text w p" using v by (simp add: post_translate_def)
    then show ?thesis unfolding translate_text_deep_provider [OF other [OF v]] .
  qed
  have 3: "\<exists>refused. post_translate w (body\<lparr>body_provider := Value s\<rparr>) =
                          (Inl (RequestValidationError refused), []) \<and>
                        ''provider'' \<in> set refused"
    if "s \<notin> set provider_literals"
    using validate_unrecognized [OF that, of body] by (auto simp: post_translate_def)
  from 1 2 3 show ?thesis by (intro conjI allI impI) auto
qed

text \<open>
  C5, at an example: a body without a \<open>provider\<close> member.
\<close>

theorem unspecified_provider_dispatches_to_deep_translator_witness:
  "body_provider demo_body = Absent \<and>
   validate_TranslationRequest demo_body =
     Inr (demo_request\<lparr>TranslationRequest.provider := Some ''deep''\<rparr>) \<and>
   post_translate demo_world demo_body =
     (Inr \<lparr> original_text = ''hello'', translated_text = ''hello'',
            TranslationResponse.source_lang = ''en'',
            TranslationResponse.target_lang = ''hi'',
            TranslationResponse.provider = ''deep-translator'',
            TranslationResponse.confidence = Some (round_double 0.95),
            TranslationResponse.is_mock = False \<rparr>,
      [DeepTranslate ''auto'' ''hi'' ''hello'']) \<and>
   post_translate demo_world (demo_body\<lparr>body_provider := Value ''deep''\<rparr>) =
     post_translate demo_world demo_body"
proof -
  have a: "body_provider demo_body = Absent" by (simp add: demo_body_def)
  then have h: "body_provider demo_body = Absent \<or> body_provider demo_body = Null" by simp
  note T = unspecified_provider_dispatches_to_deep_translator [OF h, where w = demo_world]
  have e: "post_translate demo_world demo_body =
     (Inr \<lparr> original_text = ''hello'', translated_text = ''hello'',
            TranslationResponse.source_lang = ''en'',
            TranslationResponse.target_lang = ''hi'',
            TranslationResponse.provider = ''deep-translator'',
            TranslationResponse.confidence = Some (round_double 0.95),
            TranslationResponse.is_mock = False \<rparr>,
      [DeepTranslate ''auto'' ''hi'' ''hello''])"
    by (simp add: post_translate_def demo_body_valid demo_translate_text_deep)
  show ?thesis
    by (intro conjI) (rule a demo_body_valid e T [THEN conjunct1, symmetric])+
qed

text \<open>
  C5 as it was stated fails: the provider \<open>"bing"\<close> is refused and no engine is
  called, while the same request with \<open>"deep"\<close> is translated by deep-translator.
\<close>

theorem unrecognized_provider_counterexample:
  "post_translate demo_world bing_body = (Inl (RequestValidationError [''provider'']), []) \<and>
   post_translate demo_world (bing_body\<lparr>body_provider := Value ''deep''\<rparr>) =
     (Inr \<lparr> original_text = ''hello'', translated_text = ''hello'',
            TranslationResponse.source_lang = ''en'',
            TranslationResponse.target_lang = ''hi'',
            TranslationResponse.provider = ''deep-translator'',
            TranslationResponse.confidence = Some (round_double 0.95),
            TranslationResponse.is_mock = False \<rparr>,
      [DeepTranslate ''auto'' ''hi'' ''hello''])"
  by (simp add: post_translate_def bing_body_refused bing_body_deep demo_deep_valid
        demo_translate_text_deep)

subsection \<open>googletrans not installed\<close>

text \<open>
  C6. When googletrans could not be imported, \<open>translate_with_googletrans\<close> raises
  the 503 \<open>HTTPException\<close> for the missing provider without calling any engine, so
  does every \<open>/translate\<close> call with provider \<open>google\<close>; a
  \<open>/translate-image\<close> call with provider \<open>google\<close> never returns a response and
  raises that same exception once text was extracted; and \<open>/status\<close> reports
  \<open>googletrans\<close> as false.
\<close>

theorem googletrans_missing_gives_503:
  assumes "googletrans_import w = None"
  shows "translate_with_googletrans w txt src tgt =
           (Inl (HTTPException 503
              ''Google Translate API not available. Install googletrans.''), []) \<and>
         translate_text w (p\<lparr>TranslationRequest.provider := Some ''google''\<rparr>) =
           (Inl (HTTPException 503
              ''Google Translate API not available. Install googletrans.''), []) \<and>
         (\<forall>r tr. translate_image w upload itgt isrc ''google'' \<noteq> (Inr r, tr)) \<and>
         (OCR_AVAILABLE w \<and> content_type upload = Some ct \<and> startswith ct ''image/'' \<and>
            read upload = Inr image_data \<and> EASYOCR_READER w = Some reader \<and>
            reader image_data = Inr results \<and>
            strip (join '' '' (map (\<lambda>(_, t, conf). t) results)) \<noteq> [] \<longrightarrow>
            translate_image w upload itgt isrc ''google'' =
              (Inl (HTTPException 503
                 ''Google Translate API not available. Install googletrans.''),
               [FileRead, Readtext image_data])) \<and>
         \<not> GOOGLETRANS_AVAILABLE w \<and>
         \<not> googletrans (providers (text_translation (get_translation_status w)))"
proof -
  note g = translate_with_googletrans_unavailable [OF assms]
  have 1: "translate_text w (p\<lparr>TranslationRequest.provider := Some ''google''\<rparr>) =
           (Inl (HTTPException 503
              ''Google Translate API not available. Install googletrans.''), [])"
    by (simp add: translate_text_google_provider g)
  have 3: "translate_image w upload itgt isrc ''google'' =
              (Inl (HTTPException 503
                 ''Google Translate API not available. Install googletrans.''),
               [FileRead, Readtext image_data])"
    if st: "OCR_AVAILABLE w" "content_type upload = Some ct" "startswith ct ''image/''"
      "read upload = Inr image_data" "EASYOCR_READER w = Some reader"
      "reader image_data = Inr results"
      "strip (join '' '' (map (\<lambda>(_, t, conf). t) results)) \<noteq> []"
    for ct image_data reader results
    unfolding translate_image_stage [OF st] by (simp add: g Let_def)
  have 2: "translate_image w upload itgt isrc ''google'' \<noteq> (Inr r, tr)" for r tr
  proof
    assume ok: "translate_image w upload itgt isrc ''google'' = (Inr r, tr)"
    then obtain ct image_data reader results where st:
      "OCR_AVAILABLE w" "content_type upload = Some ct" "startswith ct ''image/''"
      "read upload = Inr image_data" "EASYOCR_READER w = Some reader"
      "reader image_data = Inr results"
      "strip (join '' '' (map (\<lambda>(_, t, conf). t) results)) \<noteq> []"
      by (rule translate_image_success)
    from 3 [OF st] ok show False by simp
  qed
  have 4: "\<not> GOOGLETRANS_AVAILABLE w" using assms by (simp add: GOOGLETRANS_AVAILABLE_def)
  then have 5: "\<not> googletrans (providers (text_translation (get_translation_status w)))"
    by (simp add: get_translation_status_def)
  from g 1 2 3 4 5 show ?thesis by blast
qed

text \<open>
  C6, at an example: EasyOCR is installed in \<open>no_googletrans_world\<close>, googletrans
  is not.
\<close>

theorem googletrans_missing_gives_503_witness:
  "googletrans_import no_googletrans_world = None \<and>
   translate_text no_googletrans_world
       (demo_request\<lparr>TranslationRequest.provider := Some ''google''\<rparr>) =
     (Inl (HTTPException 503
        ''Google Translate API not available. Install googletrans.''), []) \<and>
   OCR_AVAILABLE no_googletrans_world \<and>
   translate_image no_googletrans_world demo_image ''hi'' None ''google'' =
     (Inl (HTTPException 503
        ''Google Translate API not available. Install googletrans.''),
      [FileRead, Readtext ''PNG'']) \<and>
   \<not> googletrans (providers (text_translation (get_translation_status no_googletrans_world)))"
proof -
  have h: "googletrans_import no_googletrans_world = None"
    by (simp add: no_googletrans_world_def)
  have r: "easyocr_Reader no_googletrans_world = Inr (\<lambda>image. Inr demo_detections)"
    by (simp add: no_googletrans_world_def demo_world_def)
  have nb: "strip (join '' '' (map (\<lambda>(_, t, conf). t) demo_detections)) \<noteq> []"
    by (simp add: demo_detections_text strip_Hi_there)
  note av = ocr_stage_of_reader(1) [OF r]
  note st = av demo_image_fields(1,2,3) ocr_stage_of_reader(2) [OF r] refl nb
  note T = googletrans_missing_gives_503
             [OF h, where p = demo_request and upload = demo_image and itgt = "''hi''"
                and isrc = None and ct = "''image/png''" and image_data = "''PNG''"
                and reader = "\<lambda>image. Inr demo_detections"
                and results = demo_detections]
  note B = T [THEN conjunct2, THEN conjunct1]
  note D = T [THEN conjunct2, THEN conjunct2, THEN conjunct2, THEN conjunct1, THEN mp]
  note F = T [THEN conjunct2, THEN conjunct2, THEN conjunct2, THEN conjunct2, THEN conjunct2]
  have img: "translate_image no_googletrans_world demo_image ''hi'' None ''google'' =
     (Inl (HTTPException 503
        ''Google Translate API not available. Install googletrans.''),
      [FileRead, Readtext ''PNG''])"
    by (rule D) (intro conjI st)
  show ?thesis
    by (intro conjI) (rule h B av img F)+
qed


subsection \<open>Language detection without googletrans\<close>

text \<open>
  C7. When googletrans is not available, \<open>detect_language\<close> returns a response for
  every text, with \<open>detected_lang = "en"\<close>, the name \<open>English\<close> that
  \<open>LANGUAGE_NAMES\<close> has for it, and confidence 0.5; no engine is called.
\<close>

theorem detect_language_fallback:
  assumes "googletrans_import w = None"
  shows "detect_language w txt =
           (Inr \<lparr> detected_lang = ''en'', language_name = ''English'',
                  LanguageDetectionResponse.confidence = 0.5 \<rparr>, [])"
  using assms by (simp add: detect_language_def dict_get_def LANGUAGE_NAMES_def)

text \<open>
  C7, at an example.
\<close>

theorem detect_language_fallback_witness:
  "googletrans_import offline_world = None \<and>
   detect_language offline_world ''namaste'' =
     (Inr \<lparr> detected_lang = ''en'', language_name = ''English'',
            LanguageDetectionResponse.confidence = 0.5 \<rparr>, [])"
proof -
  have h: "googletrans_import offline_world = None" by (simp add: offline_world_def)
  from detect_language_fallback [OF h] h show ?thesis by simp
qed

subsection \<open>The mock flag\<close>

text \<open>
  C8. In every response that \<open>translate_text\<close> returns, \<open>is_mock\<close> is true
  exactly when the provider of the request is \<open>mock\<close>; and when \<open>is_mock\<close> is
  true, the provider of the response is \<open>mock\<close> and its confidence is 1.0.
\<close>

theorem is_mock_exactly_for_mock_provider:
  assumes "translate_text w p = (Inr r, tr)"
  shows "(TranslationResponse.is_mock r \<longleftrightarrow> TranslationRequest.provider p = Some ''mock'') \<and>
         (TranslationResponse.is_mock r \<longrightarrow>
            TranslationResponse.provider r = ''mock'' \<and>
            TranslationResponse.confidence r = Some 1)"
  using translate_text_success(2,3,4) [OF assms] by blast

text \<open>
  C8, at an example.
\<close>

theorem is_mock_exactly_for_mock_provider_witness:
  "translate_text demo_world demo_request =
     (Inr \<lparr> original_text = ''hello'', translated_text = ''[HI] hello'',
            TranslationResponse.source_lang = ''en'',
            TranslationResponse.target_lang = ''hi'',
            TranslationResponse.provider = ''mock'',
            TranslationResponse.confidence = Some 1,
            TranslationResponse.is_mock = True \<rparr>, []) \<and>
   TranslationRequest.provider demo_request = Some ''mock''"
proof -
  note e = demo_translate_text
  from is_mock_exactly_for_mock_provider [OF e] e show ?thesis by simp
qed

subsection \<open>Order of the checks in /translate-image\<close>

text \<open>
  C9. While the OCR engine is unavailable, \<open>translate_image\<close> raises the 503
  \<open>HTTPException\<close> whatever the content type of the upload is; and whenever it raises
  an \<open>HTTPException\<close> with status 400, the OCR engine is available.
\<close>

theorem ocr_check_precedes_content_type_check:
  "(\<not> OCR_AVAILABLE w \<longrightarrow>
      translate_image w (file\<lparr>content_type := Some ct\<rparr>) tgt src pv =
        (Inl (HTTPException 503
           ''OCR engine (EasyOCR) is not initialized. Please check server logs.''), [])) \<and>
   (fst (translate_image w file tgt src pv) = Inl (HTTPException 400 detail)
      \<longrightarrow> OCR_AVAILABLE w)"
proof (intro conjI impI)
  assume "\<not> OCR_AVAILABLE w"
  from translate_image_unavailable [OF this]
  show "translate_image w (file\<lparr>content_type := Some ct\<rparr>) tgt src pv =
        (Inl (HTTPException 503
           ''OCR engine (EasyOCR) is not initialized. Please check server logs.''), [])" .
next
  assume a: "fst (translate_image w file tgt src pv) = Inl (HTTPException 400 detail)"
  show "OCR_AVAILABLE w"
  proof (rule ccontr)
    assume "\<not> OCR_AVAILABLE w"
    from translate_image_unavailable [OF this, of "file" tgt src pv] a show False by simp
  qed
qed

text \<open>
  C9, at examples: a text upload is answered with 503 in \<open>offline_world\<close> and
  with 400 in \<open>demo_world\<close>.
\<close>

theorem ocr_check_precedes_content_type_check_witness:
  "\<not> OCR_AVAILABLE offline_world \<and>
   translate_image offline_world (text_upload\<lparr>content_type := Some ''text/plain''\<rparr>)
       ''hi'' None ''deep'' =
     (Inl (HTTPException 503
        ''OCR engine (EasyOCR) is not initialized. Please check server logs.''), []) \<and>
   fst (translate_image demo_world text_upload ''hi'' None ''deep'') =
     Inl (HTTPException 400 ''File must be an image'') \<and>
   OCR_AVAILABLE demo_world"
proof -
  have e: "fst (translate_image demo_world text_upload ''hi'' None ''deep'') =
     Inl (HTTPException 400 ''File must be an image'')"
    by (simp add: translate_image_not_image [OF demo_world_ocr(1) text_upload_fields])
  from ocr_check_precedes_content_type_check
         [of offline_world "''text/plain''" text_upload "''hi''" None "''deep''"]
       ocr_check_precedes_content_type_check
         [of demo_world _ text_upload "''hi''" None "''deep''" "''File must be an image''"]
       offline_world_ocr e
  show ?thesis by simp
qed

subsection \<open>OCR confidence of a response\<close>

text \<open>
  C10. Every response that \<open>translate_image\<close> returns has an
  \<open>ocr_confidence\<close>: an empty list of detections gives an empty joined text, which
  raises the 400 \<open>HTTPException\<close> before a response is built.
\<close>

theorem successful_image_response_has_ocr_confidence:
  assumes "translate_image w upload tgt src pv = (Inr r, tr)"
  shows "ocr_confidence r \<noteq> None"
proof -
  from assms obtain ct image_data reader results where st:
    "OCR_AVAILABLE w" "content_type upload = Some ct" "startswith ct ''image/''"
    "read upload = Inr image_data" "EASYOCR_READER w = Some reader"
    "reader image_data = Inr results"
    "strip (join '' '' (map (\<lambda>(_, t, conf). t) results)) \<noteq> []"
    by (rule translate_image_success)
  from st(7) have "results \<noteq> []" by (auto simp: strip_Nil)
  with translate_image_success_fields(2) [OF st assms] show ?thesis by simp
qed

text \<open>
  C10, at an example.
\<close>

theorem successful_image_response_has_ocr_confidence_witness:
  "translate_image demo_world demo_image ''hi'' None ''mock'' =
     (Inr \<lparr> extracted_text = ''Hi there'',
            ImageTranslationResponse.translated_text = ''[HI] Hi there'',
            ImageTranslationResponse.source_lang = ''en'',
            ImageTranslationResponse.target_lang = ''hi'',
            ImageTranslationResponse.provider = ''mock'',
            ocr_confidence = Some (round_double 0.8),
            ImageTranslationResponse.is_mock = True \<rparr>,
      [FileRead, Readtext ''PNG''])"
proof -
  note e = demo_translate_image
  from successful_image_response_has_ocr_confidence [OF e] e show ?thesis by simp
qed

end
